theory Spec2Isabelle
  imports Main "HOL-Library.AList"
begin

section \<open>JavaScript values\<close>

text \<open>
  The handlers work on what \<^verbatim>\<open>express.json()\<close> parsed from the request and on the
  values the program itself makes from it. \<open>jsval\<close> is that universe: the JSON values,
  plus \<open>undefined\<close> (a property that is not there) and \<open>NaN\<close> (what \<^verbatim>\<open>parseInt\<close>
  gives for a text without digits). \<open>JNum n\<close> is the integral number \<open>n\<close>, taken in
  the range that JavaScript prints in plain decimal notation; strings are byte
  lists (UTF-8). An object is the list of its own properties, each name once, as
  \<^verbatim>\<open>JSON.parse\<close> makes it: no property of such an object is a function.
\<close>

datatype jsval =
    JUndefined
  | JNull
  | JBool bool
  | JNum int
  | JNaN
  | JStr string
  | JArr "jsval list"
  | JObj "(string \<times> jsval) list"

text \<open>
  What a \<^verbatim>\<open>throw\<close> or a rejected promise carries: an Error object, with its class
  and its message, or some other value.
\<close>

datatype js_error =
    TypeError string
  | BSONError string
  | MongoServerError string
  | Error string
  | Thrown jsval

text \<open>\<^verbatim>\<open>error instanceof Error ? error.message : 'Unknown error'\<close>\<close>

fun error_text :: "js_error \<Rightarrow> string" where
  "error_text (TypeError m) = m"
| "error_text (BSONError m) = m"
| "error_text (MongoServerError m) = m"
| "error_text (Error m) = m"
| "error_text (Thrown v) = ''Unknown error''"

text \<open>ToBoolean: what \<^verbatim>\<open>if (x)\<close>, \<^verbatim>\<open>!x\<close> and \<^verbatim>\<open>x || y\<close> test.\<close>

fun truthy :: "jsval \<Rightarrow> bool" where
  "truthy JUndefined = False"
| "truthy JNull = False"
| "truthy (JBool b) = b"
| "truthy (JNum n) = (n \<noteq> 0)"
| "truthy JNaN = False"
| "truthy (JStr s) = (s \<noteq> [])"
| "truthy (JArr xs) = True"
| "truthy (JObj fs) = True"

text \<open>\<^verbatim>\<open>a || b\<close>\<close>

definition js_or :: "jsval \<Rightarrow> jsval \<Rightarrow> jsval" where
  "js_or a b = (if truthy a then a else b)"

text \<open>Decimal digits of a number, as \<^verbatim>\<open>String(n)\<close> prints an integer.\<close>

definition digit_char :: "nat \<Rightarrow> char" where
  "digit_char d = char_of (48 + d)"

fun decimal_digits :: "nat \<Rightarrow> string \<Rightarrow> string" where
  "decimal_digits n tail =
     (if n div 10 = 0 then digit_char n # tail
      else decimal_digits (n div 10) (digit_char (n mod 10) # tail))"

definition number_text :: "int \<Rightarrow> string" where
  "number_text i =
     (if 0 \<le> i then decimal_digits (nat i) [] else CHR ''-'' # decimal_digits (nat (- i)) [])"

text \<open>\<^verbatim>\<open>parts.join(sep)\<close> on texts.\<close>

fun join :: "string \<Rightarrow> string list \<Rightarrow> string" where
  "join sep [] = []"
| "join sep [x] = x"
| "join sep (x # y # ys) = x @ sep @ join sep (y # ys)"

text \<open>
  ToString, as a template literal \<^verbatim>\<open>`${x}`\<close> applies it. An array prints as its
  elements joined by a comma, \<open>null\<close> and \<open>undefined\<close> elements as the empty text; a
  plain object prints as \<^verbatim>\<open>[object Object]\<close>, by the \<open>toString\<close> it inherits.
  An object with a property of its own called \<open>toString\<close> does not print: the property
  is data, not a function, the inherited \<open>valueOf\<close> gives the object back, and the
  conversion throws. \<open>js_toString\<close> is the text, \<open>prints\<close> says that there is one, and
  \<open>to_string\<close> is the conversion with its error.
\<close>

fun js_toString :: "jsval \<Rightarrow> string" where
  "js_toString JUndefined = ''undefined''"
| "js_toString JNull = ''null''"
| "js_toString (JBool b) = (if b then ''true'' else ''false'')"
| "js_toString (JNum n) = number_text n"
| "js_toString JNaN = ''NaN''"
| "js_toString (JStr s) = s"
| "js_toString (JArr xs) =
     join '','' (map (\<lambda>x. if x = JNull \<or> x = JUndefined then [] else js_toString x) xs)"
| "js_toString (JObj fs) = ''[object Object]''"

fun prints :: "jsval \<Rightarrow> bool" where
  "prints (JObj fs) = (map_of fs ''toString'' = None)"
| "prints (JArr xs) = list_all (\<lambda>x. x = JNull \<or> x = JUndefined \<or> prints x) xs"
| "prints v = True"

definition cannot_convert :: js_error where
  "cannot_convert = TypeError ''Cannot convert object to primitive value''"

definition to_string :: "jsval \<Rightarrow> js_error + string" where
  "to_string v = (if prints v then Inr (js_toString v) else Inl cannot_convert)"

text \<open>\<^verbatim>\<open>array.join(sep)\<close>: the same element rule, with the separator given.\<close>

definition array_join :: "jsval list \<Rightarrow> string \<Rightarrow> string" where
  "array_join xs sep =
     join sep (map (\<lambda>x. if x = JNull \<or> x = JUndefined then [] else js_toString x) xs)"

definition join_array :: "jsval list \<Rightarrow> string \<Rightarrow> js_error + string" where
  "join_array xs sep =
     (if prints (JArr xs) then Inr (array_join xs sep) else Inl cannot_convert)"

text \<open>
  Reading a property, \<^verbatim>\<open>x.k\<close>, for the property names the program reads (label,
  value, name, email, age, subject, message, answers): none of them is inherited by a
  string, a number, a boolean, an array or a plain object, so the read is the own
  property or \<open>undefined\<close>. On \<open>null\<close> and \<open>undefined\<close> the read throws.
\<close>

definition cannot_read :: "string \<Rightarrow> string \<Rightarrow> js_error" where
  "cannot_read what k =
     TypeError (''Cannot read properties of '' @ what @ '' (reading '' @ [CHR 0x27] @ k @ [CHR 0x27] @ '')'')"

fun get_prop :: "jsval \<Rightarrow> string \<Rightarrow> js_error + jsval" where
  "get_prop JUndefined k = Inl (cannot_read ''undefined'' k)"
| "get_prop JNull k = Inl (cannot_read ''null'' k)"
| "get_prop (JObj fs) k = Inr (case map_of fs k of None \<Rightarrow> JUndefined | Some v \<Rightarrow> v)"
| "get_prop v k = Inr JUndefined"

section \<open>The notification text: formatAnswers\<close>

text \<open>
  \<^verbatim>\<open>
  const formatAnswers = (answers: any[]) => {
      let message = "... <br /> <ul>";
      for (const { label, value } of answers) {
          if (!label || !value) { continue }
          const val = Array.isArray(value) ? value.join(", ") : value;
          message += `<li> <span style="font-weight: bold"> ${label} </span>  :  <i> ${val} </i> </li>  <br />`;
      }
      message += `<br /> </ul> J'aimerais en savoir plus s'il vous plait`
      return message;
  };
  \<close>
\<close>

definition greeting :: string where
  "greeting = [CHR 0xF0, CHR 0x9F, CHR 0x93, CHR 0x8B] @
     '' Bonjour SCB Cameroun, J'ai rempli les questionnaires du simulateur et voici *Mes r'' @
     [CHR 0xC3, CHR 0xA9] @ ''ponses au questionnaire* : <br /> <ul>''"

definition sign_off :: string where
  "sign_off = ''<br /> </ul> J'aimerais en savoir plus s'il vous plait''"

text \<open>The template literal of the loop body, with its two holes filled.\<close>

definition answer_item :: "string \<Rightarrow> string \<Rightarrow> string" where
  \<open>answer_item label val =
     ''<li> <span style="font-weight: bold"> '' @ label @ '' </span>  :  <i> '' @ val @
     '' </i> </li>  <br />''\<close>

text \<open>
  \<^verbatim>\<open>const { label, value } = entry\<close>: destructuring throws on \<open>null\<close> and
  \<open>undefined\<close> and reads the two properties of anything else.
\<close>

definition cannot_destructure :: "string \<Rightarrow> js_error" where
  "cannot_destructure what =
     TypeError (''Cannot destructure property 'label' of 'object' as it is '' @ what @ ''.'')"

fun destructure_entry :: "jsval \<Rightarrow> js_error + (jsval \<times> jsval)" where
  "destructure_entry JUndefined = Inl (cannot_destructure ''undefined'')"
| "destructure_entry JNull = Inl (cannot_destructure ''null'')"
| "destructure_entry (JObj fs) =
     Inr (case map_of fs ''label'' of None \<Rightarrow> JUndefined | Some v \<Rightarrow> v,
          case map_of fs ''value'' of None \<Rightarrow> JUndefined | Some v \<Rightarrow> v)"
| "destructure_entry v = Inr (JUndefined, JUndefined)"

text \<open>\<^verbatim>\<open>const val = Array.isArray(value) ? value.join(", ") : value\<close>\<close>

fun val_of :: "jsval \<Rightarrow> js_error + jsval" where
  "val_of (JArr xs) =
     (case join_array xs '', '' of Inl e \<Rightarrow> Inl e | Inr joined \<Rightarrow> Inr (JStr joined))"
| "val_of v = Inr v"

text \<open>
  The loop, with \<open>message\<close> as the accumulator. The body computes \<open>val\<close>, then the
  template prints the label and \<open>val\<close>; each of the three can throw.
\<close>

fun formatAnswers_loop :: "jsval list \<Rightarrow> string \<Rightarrow> js_error + string" where
  "formatAnswers_loop [] message = Inr message"
| "formatAnswers_loop (entry # rest) message =
     (case destructure_entry entry of
        Inl e \<Rightarrow> Inl e
      | Inr (label, val) \<Rightarrow>
          if \<not> truthy label \<or> \<not> truthy val then formatAnswers_loop rest message
          else
            (case val_of val of Inl e \<Rightarrow> Inl e | Inr v \<Rightarrow>
             case to_string label of Inl e \<Rightarrow> Inl e | Inr label_text \<Rightarrow>
             case to_string v of Inl e \<Rightarrow> Inl e | Inr val_text \<Rightarrow>
               formatAnswers_loop rest (message @ answer_item label_text val_text)))"

text \<open>
  What \<^verbatim>\<open>for ... of\<close> iterates: the elements of an array, the characters of a
  string (each a one-character string); any other value is not iterable.
\<close>

fun iterate :: "jsval \<Rightarrow> js_error + jsval list" where
  "iterate (JArr xs) = Inr xs"
| "iterate (JStr s) = Inr (map (\<lambda>c. JStr [c]) s)"
| "iterate v = Inl (TypeError ''answers is not iterable'')"

definition formatAnswers :: "jsval \<Rightarrow> js_error + string" where
  "formatAnswers answers =
     (case iterate answers of
        Inl e \<Rightarrow> Inl e
      | Inr entries \<Rightarrow>
          (case formatAnswers_loop entries greeting of
             Inl e \<Rightarrow> Inl e
           | Inr message \<Rightarrow> Inr (message @ sign_off)))"

section \<open>The rule of the specification for the answers, in its words\<close>

text \<open>
  The specification speaks of answer pairs, of the pairs that survive and of the list
  line of a pair. An answer pair is an object whose label and value have a text; a pair
  survives when the loop does not skip it; its line is the list item with the text of
  the label and the text of the value, an array joined by a comma and a space.
\<close>

fun answer_pair :: "jsval \<Rightarrow> bool" where
  "answer_pair (JObj fs) =
     (prints (case map_of fs ''label'' of None \<Rightarrow> JUndefined | Some v \<Rightarrow> v) \<and>
      prints (case map_of fs ''value'' of None \<Rightarrow> JUndefined | Some v \<Rightarrow> v))"
| "answer_pair v = False"

fun value_text :: "jsval \<Rightarrow> string" where
  "value_text (JArr xs) = array_join xs '', ''"
| "value_text v = js_toString v"

definition surviving :: "jsval \<Rightarrow> bool" where
  "surviving entry =
     (case destructure_entry entry of
        Inl e \<Rightarrow> False
      | Inr (label, val) \<Rightarrow> truthy label \<and> truthy val)"

definition list_line :: "jsval \<Rightarrow> string" where
  "list_line entry =
     (case destructure_entry entry of
        Inl e \<Rightarrow> []
      | Inr (label, val) \<Rightarrow> answer_item (js_toString label) (value_text val))"


section \<open>The Notification Gateway: EmailService\<close>

text \<open>
  What the service reads from outside the program: the environment variables
  (\<^verbatim>\<open>process.env\<close>, a variable that is not set reads as \<open>undefined\<close>) and the clock
  with its two locale renderings, \<^verbatim>\<open>new Date().toLocaleDateString()\<close> and
  \<^verbatim>\<open>new Date().toLocaleString()\<close>, whose text depends on the host, as does the text
  of a given date, \<^verbatim>\<open>date.toString()\<close>.
\<close>

type_synonym process_env = "string \<Rightarrow> string option"

definition env_value :: "process_env \<Rightarrow> string \<Rightarrow> jsval" where
  "env_value env k = (case env k of None \<Rightarrow> JUndefined | Some s \<Rightarrow> JStr s)"

record Clock =
  now :: nat
  toLocaleDateString :: string
  toLocaleString :: string
  dateToString :: "nat \<Rightarrow> string"

text \<open>
  \<^verbatim>\<open>interface EmailTemplate { subject: string; html: string; text: string; }\<close>
  The fields hold JavaScript values: the subject of the custom template is
  \<^verbatim>\<open>data.subject || '...'\<close>, any truthy value, and a template found on the prototype
  chain has none of the three fields.
\<close>

record EmailTemplate =
  t_subject :: jsval
  t_html :: jsval
  t_text :: jsval

definition welcome_subject :: "string \<Rightarrow> string" where
  \<open>welcome_subject name =
     ''Welcome '' @
     name @
     ''!''\<close>

definition welcome_html :: "string \<Rightarrow> string \<Rightarrow> string \<Rightarrow> string \<Rightarrow> string" where
  \<open>welcome_html name email age date =
     ''\<newline>'' @
     ''          <div style="font-family: Arial, sans-serif; max-width: 600px; margin: 0 auto;">\<newline>'' @
     ''            <h2 style="color: #333;">Welcome to Our Service!</h2>\<newline>'' @
     ''            <p>Hi <strong>'' @
     name @
     ''</strong>,</p>\<newline>'' @
     ''            <p>Thank you for joining our service. We're excited to have you on board!</p>\<newline>'' @
     ''            <div style="background-color: #f5f5f5; padding: 15px; margin: 20px 0; border-radius: 5px;">\<newline>'' @
     ''              <p><strong>Your Details:</strong></p>\<newline>'' @
     ''              <ul>\<newline>                <li>Name: '' @
     name @
     ''</li>\<newline>                <li>Email: '' @
     email @
     ''</li>\<newline>                <li>Age: '' @
     age @
     ''</li>\<newline>                <li>Joined: '' @
     date @
     ''</li>\<newline>              </ul>\<newline>            </div>\<newline>'' @
     ''            <p>If you have any questions, feel free to contact our support team.</p>\<newline>'' @
     ''            <p>Best regards,<br>The Team</p>\<newline>'' @
     ''          </div>\<newline>        ''\<close>

definition welcome_text :: "string \<Rightarrow> string \<Rightarrow> string \<Rightarrow> string \<Rightarrow> string" where
  \<open>welcome_text name email age date =
     ''Welcome '' @
     name @
     ''!\<newline>\<newline>'' @
     ''Thank you for joining our service. We're excited to have you on board!\<newline>\<newline>'' @
     ''Your Details:\<newline>- Name: '' @
     name @
     ''\<newline>- Email: '' @
     email @
     ''\<newline>- Age: '' @
     age @
     ''\<newline>- Joined: '' @
     date @
     ''\<newline>\<newline>'' @
     ''If you have any questions, feel free to contact our support team.\<newline>\<newline>'' @
     ''Best regards,\<newline>The Team''\<close>

definition notification_subject :: "string \<Rightarrow> string" where
  \<open>notification_subject subject =
     ''Notification: '' @
     subject\<close>

definition notification_html :: "string \<Rightarrow> string \<Rightarrow> string" where
  \<open>notification_html message sent =
     ''\<newline>'' @
     ''          <div style="font-family: Arial, sans-serif; max-width: 600px; margin: 0 auto;">\<newline>'' @
     ''            <h2 style="color: #333;">Notification</h2>\<newline>'' @
     ''            <p>Hi there,</p>\<newline>            <p>'' @
     message @
     ''</p>\<newline>            <p>This notification was sent on '' @
     sent @
     ''</p>\<newline>            <p>Best regards,<br>The Team</p>\<newline>'' @
     ''          </div>\<newline>        ''\<close>

definition notification_text :: "string \<Rightarrow> string \<Rightarrow> string" where
  \<open>notification_text message sent =
     ''Notification\<newline>\<newline>Hi there,\<newline>\<newline>'' @
     message @
     ''\<newline>\<newline>This notification was sent on '' @
     sent @
     ''\<newline>\<newline>Best regards,\<newline>The Team''\<close>

definition custom_html :: "string \<Rightarrow> string \<Rightarrow> string" where
  \<open>custom_html message sent =
     ''\<newline>'' @
     ''          <div style="font-family: Arial, sans-serif; max-width: 600px; margin: 0 auto;">\<newline>'' @
     ''            <h2 style="color: #333;">Message</h2>\<newline>'' @
     ''            <p>'' @
     message @
     ''</p>\<newline>            <p>Sent on '' @
     sent @
     ''</p>\<newline>          </div>\<newline>        ''\<close>

definition custom_text :: "string \<Rightarrow> string \<Rightarrow> string" where
  \<open>custom_text message sent =
     message @
     ''\<newline>\<newline>Sent on '' @
     sent\<close>


text \<open>\<^verbatim>\<open>s.replace(/\n/g, '<br>')\<close>\<close>

fun newlines_to_br :: "string \<Rightarrow> string" where
  "newlines_to_br [] = []"
| "newlines_to_br (c # cs) =
     (if c = CHR 0x0A then ''<br>'' @ newlines_to_br cs else c # newlines_to_br cs)"

text \<open>
  \<^verbatim>\<open>data.message.replace(/\n/g, '<br>')\<close>: only a string has the method. On \<open>null\<close>
  and \<open>undefined\<close> the read of \<open>replace\<close> throws; on any other value the call of a
  method that is not there throws.
\<close>

fun message_replace :: "jsval \<Rightarrow> js_error + string" where
  "message_replace (JStr s) = Inr (newlines_to_br s)"
| "message_replace JUndefined = Inl (cannot_read ''undefined'' ''replace'')"
| "message_replace JNull = Inl (cannot_read ''null'' ''replace'')"
| "message_replace v = Inl (TypeError ''data.message.replace is not a function'')"

text \<open>
  \<^verbatim>\<open>templates[type]\<close> reads a property of an object literal, so besides its three own
  keys it finds the members that every object inherits from \<^verbatim>\<open>Object.prototype\<close>.
  They are functions (and, for \<^verbatim>\<open>__proto__\<close>, the prototype object): truthy values
  without \<open>subject\<close>, \<open>html\<close> or \<open>text\<close>.
\<close>

definition object_prototype_members :: "string list" where
  "object_prototype_members =
     [''constructor'', ''__defineGetter__'', ''__defineSetter__'', ''hasOwnProperty'',
      ''__lookupGetter__'', ''__lookupSetter__'', ''isPrototypeOf'', ''propertyIsEnumerable'',
      ''toString'', ''valueOf'', ''__proto__'', ''toLocaleString'']"

definition inherited_member :: EmailTemplate where
  "inherited_member = \<lparr>t_subject = JUndefined, t_html = JUndefined, t_text = JUndefined\<rparr>"

text \<open>
  \<^verbatim>\<open>
  private generateEmailTemplate(type: string, data: any): EmailTemplate {
      const templates = { welcome: {...}, notification: {...}, custom: {...} };
      return templates[type as keyof typeof templates] || templates.custom;
  }
  \<close>
  The object literal is evaluated whole, whatever the type asked for, one template
  after the other in the order of the source: the first read, \<^verbatim>\<open>data.name\<close>,
  throws when \<open>data\<close> is \<open>null\<close> or \<open>undefined\<close>; each value a template prints,
  \<^verbatim>\<open>${data.k}\<close>, can throw in its conversion; and the custom template's
  \<^verbatim>\<open>data.message.replace\<close> throws when the message is not a string.
\<close>

definition printed :: "jsval \<Rightarrow> string \<Rightarrow> js_error + string" where
  "printed data k = (case get_prop data k of Inl e \<Rightarrow> Inl e | Inr v \<Rightarrow> to_string v)"

definition welcome_template :: "Clock \<Rightarrow> jsval \<Rightarrow> js_error + EmailTemplate" where
  "welcome_template clk data =
     (case printed data ''name'' of Inl e \<Rightarrow> Inl e | Inr name \<Rightarrow>
      case printed data ''email'' of Inl e \<Rightarrow> Inl e | Inr email \<Rightarrow>
      case printed data ''age'' of Inl e \<Rightarrow> Inl e | Inr age \<Rightarrow>
        Inr \<lparr>t_subject = JStr (welcome_subject name),
             t_html = JStr (welcome_html name email age (toLocaleDateString clk)),
             t_text = JStr (welcome_text name email age (toLocaleDateString clk))\<rparr>)"

definition notification_template :: "Clock \<Rightarrow> jsval \<Rightarrow> js_error + EmailTemplate" where
  "notification_template clk data =
     (case get_prop data ''subject'' of Inl e \<Rightarrow> Inl e | Inr subject \<Rightarrow>
      case to_string (js_or subject (JStr ''Update'')) of Inl e \<Rightarrow> Inl e | Inr subject_text \<Rightarrow>
      case printed data ''message'' of Inl e \<Rightarrow> Inl e | Inr message_text \<Rightarrow>
        Inr \<lparr>t_subject = JStr (notification_subject subject_text),
             t_html = JStr (notification_html message_text (toLocaleString clk)),
             t_text = JStr (notification_text message_text (toLocaleString clk))\<rparr>)"

definition custom_template :: "Clock \<Rightarrow> jsval \<Rightarrow> js_error + EmailTemplate" where
  "custom_template clk data =
     (case get_prop data ''subject'' of Inl e \<Rightarrow> Inl e | Inr subject \<Rightarrow>
      case get_prop data ''message'' of Inl e \<Rightarrow> Inl e | Inr message \<Rightarrow>
      case message_replace message of Inl e \<Rightarrow> Inl e | Inr replaced \<Rightarrow>
      case to_string message of Inl e \<Rightarrow> Inl e | Inr message_text \<Rightarrow>
        Inr \<lparr>t_subject = js_or subject (JStr ''Message from Our Service''),
             t_html = JStr (custom_html replaced (toLocaleString clk)),
             t_text = JStr (custom_text message_text (toLocaleString clk))\<rparr>)"

definition generateEmailTemplate :: "Clock \<Rightarrow> string \<Rightarrow> jsval \<Rightarrow> js_error + EmailTemplate" where
  "generateEmailTemplate clk type data =
     (case welcome_template clk data of Inl e \<Rightarrow> Inl e | Inr welcome \<Rightarrow>
      case notification_template clk data of Inl e \<Rightarrow> Inl e | Inr notification \<Rightarrow>
      case custom_template clk data of Inl e \<Rightarrow> Inl e | Inr custom \<Rightarrow>
        Inr (if type = ''welcome'' then welcome
             else if type = ''notification'' then notification
             else if type = ''custom'' then custom
             else if type \<in> set object_prototype_members then inherited_member
             else custom))"

text \<open>
  The transport is nodemailer's: \<open>sendMail\<close> is what it answers to a message (an error
  it rejects with, or the info of the message sent, with the preview link that
  \<^verbatim>\<open>nodemailer.getTestMessageUrl(info)\<close> finds for it, if any), and \<open>dispatched\<close> is
  the list of the messages handed to it.
\<close>

record MailOptions =
  m_from :: string
  m_to :: jsval
  m_subject :: jsval
  m_text :: jsval
  m_html :: jsval

record SentInfo =
  messageId :: string
  testMessageUrl :: "string option"

record EmailService =
  isConfigured :: bool
  sendMail :: "MailOptions \<Rightarrow> js_error + SentInfo"
  dispatched :: "MailOptions list"

definition isReady :: "EmailService \<Rightarrow> bool" where
  "isReady svc = isConfigured svc"

text \<open>
  \<^verbatim>\<open>Promise<{ success: boolean; messageId?: string; previewUrl?: string; error?: string }>\<close>
\<close>

record SendResult =
  r_success :: bool
  r_messageId :: "string option"
  r_previewUrl :: "string option"
  r_error :: "string option"

definition send_failure :: "string \<Rightarrow> SendResult" where
  "send_failure msg =
     \<lparr>r_success = False, r_messageId = None, r_previewUrl = None, r_error = Some msg\<rparr>"

text \<open>
  \<^verbatim>\<open>
  public async sendEmail(to: string, type: string, data: any) {
      if (!this.isConfigured) {
          return { success: false, error: 'Email service not configured' };
      }
      try {
          const template = this.generateEmailTemplate(type, data);
          const mailOptions = { from: `"${... || 'Your Service'}" <${... || ...}>`, to: to,
              subject: template.subject, text: template.text, html: template.html };
          const info = await this.transporter.sendMail(mailOptions);
          const previewUrl = process.env['NODE_ENV'] !== 'production'
              ? nodemailer.getTestMessageUrl(info) : undefined;
          return { success: true, messageId: info.messageId, previewUrl: previewUrl || undefined };
      } catch (error) {
          return { success: false, error: error instanceof Error ? error.message : 'Unknown error' };
      }
  }
  \<close>
  The function returns a result on every path and the new state of the service; nothing
  is thrown to the caller.
\<close>

definition mail_from :: "process_env \<Rightarrow> string" where
  \<open>mail_from env =
     ''"'' @ js_toString (js_or (env_value env ''SMTP_FROM_NAME'') (JStr ''Your Service'')) @
     ''" <'' @
     js_toString (js_or (env_value env ''SMTP_FROM_EMAIL'') (env_value env ''SMTP_USER'')) @
     ''>''\<close>

definition preview_url :: "process_env \<Rightarrow> SentInfo \<Rightarrow> string option" where
  "preview_url env info =
     (if env ''NODE_ENV'' \<noteq> Some ''production''
      then (case testMessageUrl info of None \<Rightarrow> None | Some u \<Rightarrow> if u = [] then None else Some u)
      else None)"

definition sendEmail ::
  "process_env \<Rightarrow> Clock \<Rightarrow> EmailService \<Rightarrow> jsval \<Rightarrow> string \<Rightarrow> jsval \<Rightarrow> SendResult \<times> EmailService" where
  "sendEmail env clk svc to type data =
     (if \<not> isConfigured svc then (send_failure ''Email service not configured'', svc)
      else
        (case generateEmailTemplate clk type data of
           Inl e \<Rightarrow> (send_failure (error_text e), svc)
         | Inr template \<Rightarrow>
             let mailOptions = \<lparr>m_from = mail_from env, m_to = to,
                   m_subject = t_subject template, m_text = t_text template,
                   m_html = t_html template\<rparr>;
                 svc' = svc\<lparr>dispatched := dispatched svc @ [mailOptions]\<rparr>
             in (case sendMail svc mailOptions of
                   Inl e \<Rightarrow> (send_failure (error_text e), svc')
                 | Inr info \<Rightarrow>
                     (\<lparr>r_success = True, r_messageId = Some (messageId info),
                       r_previewUrl = preview_url env info, r_error = None\<rparr>, svc'))))"

section \<open>The Record Store: ObjectId, documents, the collection\<close>

text \<open>
  An ObjectId is 12 bytes, modelled as the number they make (below \<open>2 ^ 96\<close>).
  \<^verbatim>\<open>id.toString()\<close> prints it as 24 lower-case hexadecimal digits;
  \<^verbatim>\<open>new ObjectId(text)\<close> reads 24 hexadecimal digits of either case and throws on any
  other text (the 12-character form that old versions of the library also took is not
  modelled).
\<close>

definition hex_char :: "nat \<Rightarrow> char" where
  "hex_char d = ''0123456789abcdef'' ! d"

fun to_hex :: "nat \<Rightarrow> nat \<Rightarrow> string" where
  "to_hex 0 n = []"
| "to_hex (Suc width) n = to_hex width (n div 16) @ [hex_char (n mod 16)]"

definition toHexString :: "nat \<Rightarrow> string" where
  "toHexString oid = to_hex 24 oid"

definition hex_value :: "char \<Rightarrow> nat option" where
  "hex_value c =
     (let k = of_char c :: nat in
      if 48 \<le> k \<and> k \<le> 57 then Some (k - 48)
      else if 97 \<le> k \<and> k \<le> 102 then Some (k - 87)
      else if 65 \<le> k \<and> k \<le> 70 then Some (k - 55)
      else None)"

fun parse_hex :: "string \<Rightarrow> nat \<Rightarrow> nat option" where
  "parse_hex [] acc = Some acc"
| "parse_hex (c # cs) acc =
     (case hex_value c of None \<Rightarrow> None | Some d \<Rightarrow> parse_hex cs (acc * 16 + d))"

definition ObjectId_new :: "string \<Rightarrow> js_error + nat" where
  "ObjectId_new s =
     (if length s = 24
      then (case parse_hex s 0 of
              None \<Rightarrow> Inl (BSONError ''input must be a 24 character hex string, 12 byte Uint8Array, or an integer'')
            | Some oid \<Rightarrow> Inr oid)
      else Inl (BSONError ''input must be a 24 character hex string, 12 byte Uint8Array, or an integer''))"

text \<open>
  A stored value is a JSON value of the request, an ObjectId or a Date (milliseconds),
  and a document is its list of fields.
  \<^verbatim>\<open>interface SampleData { _id?: ObjectId; name: string; email: string; age: number; createdAt: Date; }\<close>
  is the shape the program expects; what it stores is the request body as it came.
\<close>

datatype bson = BVal jsval | BObjectId nat | BDate nat

type_synonym document = "(string \<times> bson) list"

text \<open>Writing a property, \<^verbatim>\<open>doc[k] = v\<close>: in place when it is there, else added.\<close>

definition set_field :: "string \<Rightarrow> bson \<Rightarrow> document \<Rightarrow> document" where
  "set_field k v doc = AList.update k v doc"

text \<open>
  The collection is the MongoDB driver's, not the program's: what follows states the
  behaviour of the driver and the server that the handlers rely on. Its state is the
  documents, the counter from which the driver makes the next ObjectId (a supply of
  fresh ids), and whether the server answers; when it does not, every operation throws.
\<close>

record Collection =
  docs :: "document list"
  pk_counter :: nat
  reachable :: bool

definition unreachable :: js_error where
  "unreachable = Error ''connect ECONNREFUSED''"

text \<open>
  \<^verbatim>\<open>
  export class MongoService {
    private collection: Collection<SampleData> | null = null;
    getCollection(): Collection<SampleData> {
      if (!this.collection) { throw new Error('Database not connected'); }
      return this.collection;
    }
  }
  \<close>
\<close>

record MongoService =
  collection :: "Collection option"

definition getCollection :: "MongoService \<Rightarrow> js_error + Collection" where
  "getCollection svc =
     (case collection svc of
        None \<Rightarrow> Inl (Error ''Database not connected'')
      | Some c \<Rightarrow> Inr c)"

text \<open>\<^verbatim>\<open>collection.find({}).toArray()\<close>\<close>

definition find_all :: "Collection \<Rightarrow> js_error + document list" where
  "find_all c = (if reachable c then Inr (docs c) else Inl unreachable)"

text \<open>\<^verbatim>\<open>collection.findOne({ _id: oid })\<close>: the first document with that id, or \<open>null\<close>.\<close>

definition has_id :: "nat \<Rightarrow> document \<Rightarrow> bool" where
  "has_id oid doc = (map_of doc ''_id'' = Some (BObjectId oid))"

definition findOne :: "Collection \<Rightarrow> nat \<Rightarrow> js_error + document option" where
  "findOne c oid = (if reachable c then Inr (find (has_id oid) (docs c)) else Inl unreachable)"

text \<open>
  \<^verbatim>\<open>collection.insertOne(doc)\<close>: a document without \<open>_id\<close> (or with \<open>null\<close>) gets the
  next ObjectId of the driver; an array is refused as \<open>_id\<close>, and so is an \<open>_id\<close> that a
  stored document has already (the unique index). The result is the id and the new
  collection.
\<close>

fun given_id :: "bson option \<Rightarrow> bson option" where
  "given_id None = None"
| "given_id (Some (BVal JNull)) = None"
| "given_id (Some (BVal JUndefined)) = None"
| "given_id (Some v) = Some v"

fun id_refused :: "bson \<Rightarrow> bool" where
  "id_refused (BVal (JArr xs)) = True"
| "id_refused v = False"

definition insertOne :: "Collection \<Rightarrow> document \<Rightarrow> js_error + (bson \<times> Collection)" where
  "insertOne c doc =
     (if \<not> reachable c then Inl unreachable
      else
        let (insertedId, counter) =
              (case given_id (map_of doc ''_id'') of
                 None \<Rightarrow> (BObjectId (pk_counter c), pk_counter c + 1)
               | Some v \<Rightarrow> (v, pk_counter c))
        in if id_refused insertedId
           then Inl (MongoServerError ''The '_id' value cannot be of type array'')
           else if \<exists>d \<in> set (docs c). map_of d ''_id'' = Some insertedId
           then Inl (MongoServerError ''E11000 duplicate key error'')
           else Inr (insertedId,
                     c\<lparr>docs := docs c @ [set_field ''_id'' insertedId doc], pk_counter := counter\<rparr>))"

text \<open>
  \<^verbatim>\<open>collection.insertMany(docs)\<close>, ordered: one insertion after the other, stopping at
  the first that fails; what was inserted before stays. The count is \<open>insertedCount\<close>.
\<close>

fun insertMany :: "Collection \<Rightarrow> document list \<Rightarrow> nat \<Rightarrow> (js_error + nat) \<times> Collection" where
  "insertMany c [] insertedCount = (Inr insertedCount, c)"
| "insertMany c (doc # rest) insertedCount =
     (case insertOne c doc of
        Inl e \<Rightarrow> (Inl e, c)
      | Inr (insertedId, c') \<Rightarrow> insertMany c' rest (Suc insertedCount))"

text \<open>
  \<^verbatim>\<open>collection.updateOne({ _id: oid }, { $set: updateData })\<close>: the first document with
  that id gets the fields of \<open>updateData\<close> written; the result is \<open>matchedCount\<close>.
  A \<open>$set\<close> with no field changes nothing (servers from version 5.0 accept it).
\<close>

fun set_fields :: "document \<Rightarrow> document \<Rightarrow> document" where
  "set_fields [] doc = doc"
| "set_fields ((k, v) # updates) doc = set_fields updates (set_field k v doc)"

fun update_first :: "nat \<Rightarrow> document \<Rightarrow> document list \<Rightarrow> nat \<times> document list" where
  "update_first oid updateData [] = (0, [])"
| "update_first oid updateData (d # ds) =
     (if has_id oid d then (1, set_fields updateData d # ds)
      else (case update_first oid updateData ds of (n, ds') \<Rightarrow> (n, d # ds')))"

definition updateOne :: "Collection \<Rightarrow> nat \<Rightarrow> document \<Rightarrow> js_error + (nat \<times> Collection)" where
  "updateOne c oid updateData =
     (if reachable c
      then (case update_first oid updateData (docs c) of
              (matchedCount, ds) \<Rightarrow> Inr (matchedCount, c\<lparr>docs := ds\<rparr>))
      else Inl unreachable)"

text \<open>\<^verbatim>\<open>collection.deleteOne({ _id: oid })\<close>: removes the first document with that id; the result is \<open>deletedCount\<close>.\<close>

fun delete_first :: "nat \<Rightarrow> document list \<Rightarrow> nat \<times> document list" where
  "delete_first oid [] = (0, [])"
| "delete_first oid (d # ds) =
     (if has_id oid d then (1, ds)
      else (case delete_first oid ds of (n, ds') \<Rightarrow> (n, d # ds')))"

definition deleteOne :: "Collection \<Rightarrow> nat \<Rightarrow> js_error + (nat \<times> Collection)" where
  "deleteOne c oid =
     (if reachable c
      then (case delete_first oid (docs c) of
              (deletedCount, ds) \<Rightarrow> Inr (deletedCount, c\<lparr>docs := ds\<rparr>))
      else Inl unreachable)"

section \<open>The request handlers\<close>

text \<open>
  \<^verbatim>\<open>interface ApiResponse<T> { success: boolean; data?: T; message?: string; }\<close>
  The payload is one of the four shapes the handlers send. A response is the status
  code and the envelope given to \<^verbatim>\<open>res.json\<close>.
\<close>

datatype payload =
    Records "document list"
  | Record document
  | NewId string
  | InsertedCount nat

record ApiResponse =
  success :: bool
  data :: "payload option"
  message :: "string option"

record HttpResponse =
  status :: nat
  json :: ApiResponse

text \<open>The services the routes were given; a handler returns its response and their new state.\<close>

record App =
  mongoService :: MongoService
  emailService :: EmailService

definition failure :: "nat \<Rightarrow> string \<Rightarrow> HttpResponse" where
  "failure code msg =
     \<lparr>status = code, json = \<lparr>success = False, data = None, message = Some msg\<rparr>\<rparr>"

definition with_collection :: "App \<Rightarrow> Collection \<Rightarrow> App" where
  "with_collection app c = app\<lparr>mongoService := (mongoService app)\<lparr>collection := Some c\<rparr>\<rparr>"

text \<open>Reading a property of the request body, a JSON object: \<^verbatim>\<open>req.body.k\<close>.\<close>

definition body_field :: "(string \<times> jsval) list \<Rightarrow> string \<Rightarrow> jsval" where
  "body_field body k = (case map_of body k of None \<Rightarrow> JUndefined | Some v \<Rightarrow> v)"

text \<open>
  \<^verbatim>\<open>
  app.get('/api/data', async (_req, res) => {
      try {
          const collection = mongoService.getCollection();
          const data = await collection.find({}).toArray();
          res.json({ success: true, data: data });
      } catch (error) {
          res.status(500).json({ success: false, message: 'Failed to fetch data' });
      }
  });
  \<close>
\<close>

definition get_api_data :: "App \<Rightarrow> HttpResponse \<times> App" where
  "get_api_data app =
     (case getCollection (mongoService app) of
        Inl e \<Rightarrow> (failure 500 ''Failed to fetch data'', app)
      | Inr c \<Rightarrow>
          (case find_all c of
             Inl e \<Rightarrow> (failure 500 ''Failed to fetch data'', app)
           | Inr found \<Rightarrow>
               (\<lparr>status = 200,
                 json = \<lparr>success = True, data = Some (Records found), message = None\<rparr>\<rparr>, app)))"

text \<open>
  \<^verbatim>\<open>
  app.get('/api/data/:id', async (req, res) => {
      try {
          const { id } = req.params;
          const collection = mongoService.getCollection();
          const data = await collection.findOne({ _id: new ObjectId(id) });
          if (!data) {
              return res.status(404).json({ success: false, message: 'Data not found' });
          }
          return res.json({ success: true, data: data });
      } catch (error) {
          return res.status(500).json({ success: false, message: 'Failed to fetch data' });
      }
  });
  \<close>
\<close>

definition get_api_data_id :: "string \<Rightarrow> App \<Rightarrow> HttpResponse \<times> App" where
  "get_api_data_id ident app =
     (case getCollection (mongoService app) of
        Inl e \<Rightarrow> (failure 500 ''Failed to fetch data'', app)
      | Inr c \<Rightarrow>
          (case ObjectId_new ident of
             Inl e \<Rightarrow> (failure 500 ''Failed to fetch data'', app)
           | Inr oid \<Rightarrow>
               (case findOne c oid of
                  Inl e \<Rightarrow> (failure 500 ''Failed to fetch data'', app)
                | Inr None \<Rightarrow> (failure 404 ''Data not found'', app)
                | Inr (Some found) \<Rightarrow>
                    (\<lparr>status = 200,
                      json = \<lparr>success = True, data = Some (Record found), message = None\<rparr>\<rparr>,
                     app))))"

text \<open>
  \<^verbatim>\<open>
  app.post('/api/data', async (req, res) => {
      try {
          const newData = { ...req.body, createdAt: new Date() };
          const collection = mongoService.getCollection();
          const result = await collection.insertOne(newData);
          const mailContent = {
              subject: 'Data Retrieved From Simulator',
              message: formatAnswers(req.body.answers || []),
          }
          emailService.isReady() && await emailService.sendEmail(process.env['RECIPIENT_EMAIL'], 'custom', mailContent);
          res.status(201).json({ success: true, data: { id: result.insertedId.toString() },
                                 message: 'Data created successfully' });
      } catch (error) {
          res.status(500).json({ success: false, message: 'Failed to create data' });
      }
  });
  \<close>
  The inserted id is printed by its \<open>toString\<close>: an ObjectId in hexadecimal, a value
  the client gave as \<open>_id\<close> as JavaScript prints it; the call throws when that
  value is an object with a \<open>toString\<close> property of its own, which is not a function.
\<close>

definition new_document :: "Clock \<Rightarrow> (string \<times> jsval) list \<Rightarrow> document" where
  "new_document clk body =
     set_field ''createdAt'' (BDate (now clk)) (map (\<lambda>(k, v). (k, BVal v)) body)"

fun id_toString :: "Clock \<Rightarrow> bson \<Rightarrow> js_error + string" where
  "id_toString clk (BObjectId oid) = Inr (toHexString oid)"
| "id_toString clk (BDate t) = Inr (dateToString clk t)"
| "id_toString clk (BVal JUndefined) = Inl (cannot_read ''undefined'' ''toString'')"
| "id_toString clk (BVal JNull) = Inl (cannot_read ''null'' ''toString'')"
| "id_toString clk (BVal (JObj fs)) =
     (if map_of fs ''toString'' = None then Inr ''[object Object]''
      else Inl (TypeError ''result.insertedId.toString is not a function''))"
| "id_toString clk (BVal v) = to_string v"

definition post_api_data ::
  "process_env \<Rightarrow> Clock \<Rightarrow> (string \<times> jsval) list \<Rightarrow> App \<Rightarrow> HttpResponse \<times> App" where
  "post_api_data env clk body app =
     (let newData = new_document clk body in
      case getCollection (mongoService app) of
        Inl e \<Rightarrow> (failure 500 ''Failed to create data'', app)
      | Inr c \<Rightarrow>
          (case insertOne c newData of
             Inl e \<Rightarrow> (failure 500 ''Failed to create data'', app)
           | Inr (insertedId, c') \<Rightarrow>
               let app1 = with_collection app c' in
               (case formatAnswers (js_or (body_field body ''answers'') (JArr [])) of
                  Inl e \<Rightarrow> (failure 500 ''Failed to create data'', app1)
                | Inr formatted \<Rightarrow>
                    let mailContent = JObj [(''subject'', JStr ''Data Retrieved From Simulator''),
                                            (''message'', JStr formatted)];
                        app2 =
                          (if isReady (emailService app1)
                           then app1\<lparr>emailService :=
                                  snd (sendEmail env clk (emailService app1)
                                         (env_value env ''RECIPIENT_EMAIL'') ''custom'' mailContent)\<rparr>
                           else app1)
                    in (case id_toString clk insertedId of
                          Inl e \<Rightarrow> (failure 500 ''Failed to create data'', app2)
                        | Inr ident \<Rightarrow>
                            (\<lparr>status = 201,
                              json = \<lparr>success = True, data = Some (NewId ident),
                                      message = Some ''Data created successfully''\<rparr>\<rparr>, app2)))))"

text \<open>
  \<^verbatim>\<open>parseInt(x)\<close>: the text of \<open>x\<close> (the conversion can throw), leading white space
  skipped, an optional sign, then the longest run of digits (hexadecimal after
  \<^verbatim>\<open>0x\<close>); \<open>NaN\<close> when there is no digit. The white space recognised is the ASCII
  one.
\<close>

definition is_space :: "char \<Rightarrow> bool" where
  "is_space c = (c \<in> set [CHR 0x09, CHR 0x0A, CHR 0x0B, CHR 0x0C, CHR 0x0D, CHR 0x20])"

fun read_digits :: "nat \<Rightarrow> string \<Rightarrow> nat option \<Rightarrow> nat option" where
  "read_digits radix [] acc = acc"
| "read_digits radix (c # cs) acc =
     (case hex_value c of
        None \<Rightarrow> acc
      | Some d \<Rightarrow>
          if d < radix
          then read_digits radix cs (Some ((case acc of None \<Rightarrow> 0 | Some n \<Rightarrow> n) * radix + d))
          else acc)"

fun strip_sign :: "string \<Rightarrow> bool \<times> string" where
  "strip_sign [] = (False, [])"
| "strip_sign (c # cs) =
     (if c = CHR ''-'' then (True, cs) else if c = CHR ''+'' then (False, cs) else (False, c # cs))"

fun strip_radix :: "string \<Rightarrow> nat \<times> string" where
  "strip_radix (z # x # cs) =
     (if z = CHR ''0'' \<and> (x = CHR ''x'' \<or> x = CHR ''X'') then (16, cs) else (10, z # x # cs))"
| "strip_radix cs = (10, cs)"

definition parseInt_text :: "string \<Rightarrow> jsval" where
  "parseInt_text s =
     (case strip_sign (dropWhile is_space s) of
        (negative, s1) \<Rightarrow>
          (case strip_radix s1 of
             (radix, s2) \<Rightarrow>
               (case read_digits radix s2 None of
                  None \<Rightarrow> JNaN
                | Some n \<Rightarrow> JNum (if negative then - int n else int n))))"

definition parseInt :: "jsval \<Rightarrow> js_error + jsval" where
  "parseInt v = (case to_string v of Inl e \<Rightarrow> Inl e | Inr s \<Rightarrow> Inr (parseInt_text s))"

text \<open>
  \<^verbatim>\<open>
  app.put('/api/data/:id', async (req, res) => {
      try {
          const { id } = req.params;
          const { name, email, age } = req.body;
          const updateData: Partial<SampleData> = {};
          if (name) updateData.name = name;
          if (email) updateData.email = email;
          if (age) updateData.age = parseInt(age);
          const collection = mongoService.getCollection();
          const result = await collection.updateOne({ _id: new ObjectId(id) }, { $set: updateData });
          if (result.matchedCount === 0) {
              return res.status(404).json({ success: false, message: 'Data not found' });
          }
          return res.json({ success: true, message: 'Data updated successfully' });
      } catch (error) {
          return res.status(500).json({ success: false, message: 'Failed to update data' });
      }
  });
  \<close>
\<close>

definition updateData_of :: "(string \<times> jsval) list \<Rightarrow> js_error + document" where
  "updateData_of body =
     (let name = body_field body ''name'';
          email = body_field body ''email'';
          age = body_field body ''age'';
          name_set = (if truthy name then [(''name'', BVal name)] else []);
          email_set = (if truthy email then [(''email'', BVal email)] else [])
      in if truthy age
         then (case parseInt age of
                 Inl e \<Rightarrow> Inl e
               | Inr n \<Rightarrow> Inr (name_set @ email_set @ [(''age'', BVal n)]))
         else Inr (name_set @ email_set))"

definition put_api_data_id :: "string \<Rightarrow> (string \<times> jsval) list \<Rightarrow> App \<Rightarrow> HttpResponse \<times> App" where
  "put_api_data_id ident body app =
     (case updateData_of body of
        Inl e \<Rightarrow> (failure 500 ''Failed to update data'', app)
      | Inr updateData \<Rightarrow>
          (case getCollection (mongoService app) of
             Inl e \<Rightarrow> (failure 500 ''Failed to update data'', app)
           | Inr c \<Rightarrow>
               (case ObjectId_new ident of
                  Inl e \<Rightarrow> (failure 500 ''Failed to update data'', app)
                | Inr oid \<Rightarrow>
                    (case updateOne c oid updateData of
                       Inl e \<Rightarrow> (failure 500 ''Failed to update data'', app)
                     | Inr (matchedCount, c') \<Rightarrow>
                         if matchedCount = 0
                         then (failure 404 ''Data not found'', with_collection app c')
                         else (\<lparr>status = 200,
                                json = \<lparr>success = True, data = None,
                                        message = Some ''Data updated successfully''\<rparr>\<rparr>,
                               with_collection app c')))))"

text \<open>
  \<^verbatim>\<open>
  app.delete('/api/data/:id', async (req, res) => {
      try {
          const { id } = req.params;
          const collection = mongoService.getCollection();
          const result = await collection.deleteOne({ _id: new ObjectId(id) });
          if (result.deletedCount === 0) {
              return res.status(404).json({ success: false, message: 'Data not found' });
          }
          return res.json({ success: true, message: 'Data deleted successfully' });
      } catch (error) {
          return res.status(500).json({ success: false, message: 'Failed to delete data' });
      }
  });
  \<close>
\<close>

definition delete_api_data_id :: "string \<Rightarrow> App \<Rightarrow> HttpResponse \<times> App" where
  "delete_api_data_id ident app =
     (case getCollection (mongoService app) of
        Inl e \<Rightarrow> (failure 500 ''Failed to delete data'', app)
      | Inr c \<Rightarrow>
          (case ObjectId_new ident of
             Inl e \<Rightarrow> (failure 500 ''Failed to delete data'', app)
           | Inr oid \<Rightarrow>
               (case deleteOne c oid of
                  Inl e \<Rightarrow> (failure 500 ''Failed to delete data'', app)
                | Inr (deletedCount, c') \<Rightarrow>
                    if deletedCount = 0
                    then (failure 404 ''Data not found'', with_collection app c')
                    else (\<lparr>status = 200,
                           json = \<lparr>success = True, data = None,
                                   message = Some ''Data deleted successfully''\<rparr>\<rparr>,
                          with_collection app c'))))"

text \<open>
  \<^verbatim>\<open>
  app.post('/api/seed', async (_req, res) => {
      try {
          const sampleData = [
              { name: 'John Doe', email: 'john@example.com', age: 30, createdAt: new Date() },
              { name: 'Jane Smith', email: 'jane@example.com', age: 25, createdAt: new Date() },
              { name: 'Bob Johnson', email: 'bob@example.com', age: 35, createdAt: new Date() }
          ];
          const collection = mongoService.getCollection();
          const result = await collection.insertMany(sampleData);
          res.status(201).json({ success: true, data: { insertedCount: result.insertedCount },
                                 message: 'Sample data seeded successfully' });
      } catch (error) {
          res.status(500).json({ success: false, message: 'Failed to seed data' });
      }
  });
  \<close>
\<close>

definition sample_record :: "Clock \<Rightarrow> string \<Rightarrow> string \<Rightarrow> int \<Rightarrow> document" where
  "sample_record clk name email age =
     [(''name'', BVal (JStr name)), (''email'', BVal (JStr email)), (''age'', BVal (JNum age)),
      (''createdAt'', BDate (now clk))]"

definition sampleData :: "Clock \<Rightarrow> document list" where
  "sampleData clk =
     [sample_record clk ''John Doe'' ''john@example.com'' 30,
      sample_record clk ''Jane Smith'' ''jane@example.com'' 25,
      sample_record clk ''Bob Johnson'' ''bob@example.com'' 35]"

definition post_api_seed :: "Clock \<Rightarrow> App \<Rightarrow> HttpResponse \<times> App" where
  "post_api_seed clk app =
     (case getCollection (mongoService app) of
        Inl e \<Rightarrow> (failure 500 ''Failed to seed data'', app)
      | Inr c \<Rightarrow>
          (case insertMany c (sampleData clk) 0 of
             (Inl e, c') \<Rightarrow> (failure 500 ''Failed to seed data'', with_collection app c')
           | (Inr insertedCount, c') \<Rightarrow>
               (\<lparr>status = 201,
                 json = \<lparr>success = True, data = Some (InsertedCount insertedCount),
                         message = Some ''Sample data seeded successfully''\<rparr>\<rparr>,
                with_collection app c')))"

section \<open>The terms of the specification for the handlers\<close>

text \<open>The Records of the store, as the handlers see them: none before the connection.\<close>

definition stored :: "App \<Rightarrow> document list" where
  "stored app = (case collection (mongoService app) of None \<Rightarrow> [] | Some c \<Rightarrow> docs c)"

text \<open>
  The invariant of the envelope: a response that is not a success has no payload and
  has a message; a successful change of state is acknowledged by a message.
\<close>

definition envelope_ok :: "ApiResponse \<Rightarrow> bool" where
  "envelope_ok r = (\<not> success r \<longrightarrow> data r = None \<and> message r \<noteq> None)"

definition change_acknowledged :: "ApiResponse \<Rightarrow> bool" where
  "change_acknowledged r = (success r \<longrightarrow> message r \<noteq> None)"

text \<open>The two successful envelopes of create and update.\<close>

definition created :: "string \<Rightarrow> HttpResponse" where
  "created ident =
     \<lparr>status = 201,
      json = \<lparr>success = True, data = Some (NewId ident), message = Some ''Data created successfully''\<rparr>\<rparr>"

definition updated :: HttpResponse where
  "updated = \<lparr>status = 200,
     json = \<lparr>success = True, data = None, message = Some ''Data updated successfully''\<rparr>\<rparr>"

text \<open>An ObjectId is a number of 12 bytes.\<close>

definition objectid_bound :: nat where
  "objectid_bound = 2 ^ 96"

text \<open>
  The ids the driver gave so far are below its counter: the next one is new to the
  collection.
\<close>

definition ids_below_counter :: "Collection \<Rightarrow> bool" where
  "ids_below_counter c = (\<forall>d \<in> set (docs c). \<forall>n. has_id n d \<longrightarrow> n < pk_counter c)"

text \<open>
  A valid Record input: a body with name, email and age. The Record the store then
  holds has the three fields, the creation time and the id.
\<close>

definition record_input :: "string \<Rightarrow> string \<Rightarrow> int \<Rightarrow> (string \<times> jsval) list" where
  "record_input name email age = [(''name'', JStr name), (''email'', JStr email), (''age'', JNum age)]"

definition stored_record :: "Clock \<Rightarrow> string \<Rightarrow> string \<Rightarrow> int \<Rightarrow> nat \<Rightarrow> document" where
  "stored_record clk name email age oid =
     [(''name'', BVal (JStr name)), (''email'', BVal (JStr email)), (''age'', BVal (JNum age)),
      (''createdAt'', BDate (now clk)), (''_id'', BObjectId oid)]"

section \<open>Concrete states and requests\<close>

text \<open>A clock, an empty environment, and three mail services: one that is not
  configured, one whose transport delivers, one whose transport rejects every message.\<close>

definition example_clock :: Clock where
  "example_clock =
     \<lparr>now = 1762128000000, toLocaleDateString = ''11/3/2026'',
      toLocaleString = ''11/3/2026, 12:00:00 AM'',
      dateToString = (\<lambda>t. ''Tue Nov 03 2026 00:00:00 GMT+0000'')\<rparr>"

definition no_env :: process_env where
  "no_env = (\<lambda>k. None)"

definition service_unconfigured :: EmailService where
  "service_unconfigured =
     \<lparr>isConfigured = False, sendMail = (\<lambda>m. Inl (Error ''no transport'')), dispatched = []\<rparr>"

definition service_delivering :: EmailService where
  "service_delivering =
     \<lparr>isConfigured = True,
      sendMail = (\<lambda>m. Inr \<lparr>messageId = ''<1@example.com>'', testMessageUrl = None\<rparr>),
      dispatched = []\<rparr>"

definition service_rejecting :: EmailService where
  "service_rejecting =
     \<lparr>isConfigured = True, sendMail = (\<lambda>m. Inl (Error ''Connection timeout'')),
      dispatched = []\<rparr>"

text \<open>A collection of two Records, and the services around it; a body whose answers
  are an object, not a list.\<close>

definition example_collection :: Collection where
  "example_collection =
     \<lparr>docs = [stored_record example_clock ''Ada'' ''ada@example.com'' 36 0,
              stored_record example_clock ''Bob'' ''bob@example.com'' 41 1],
      pk_counter = 2, reachable = True\<rparr>"

definition example_app :: App where
  "example_app =
     \<lparr>mongoService = \<lparr>collection = Some example_collection\<rparr>, emailService = service_rejecting\<rparr>"

definition answers_object_body :: "(string \<times> jsval) list" where
  "answers_object_body =
     record_input ''Eve'' ''eve@example.com'' 29 @ [(''answers'', JObj [(''q1'', JStr ''yes'')])]"

section \<open>Properties of formatAnswers\<close>

lemma to_string_prints: "prints v \<Longrightarrow> to_string v = Inr (js_toString v)"
  by (simp add: to_string_def)

lemma val_of_text:
  assumes "prints v"
  obtains w where "val_of v = Inr w" and "to_string w = Inr (value_text v)"
  using assms by (cases v) (simp_all add: join_array_def to_string_def)

lemma formatAnswers_loop_step:
  assumes "answer_pair entry"
  shows "formatAnswers_loop (entry # rest) acc =
           formatAnswers_loop rest (if surviving entry then acc @ list_line entry else acc)"
proof -
  from assms obtain fs where e: "entry = JObj fs"
    by (cases entry) simp_all
  define label where "label = (case map_of fs ''label'' of None \<Rightarrow> JUndefined | Some v \<Rightarrow> v)"
  define val where "val = (case map_of fs ''value'' of None \<Rightarrow> JUndefined | Some v \<Rightarrow> v)"
  have d: "destructure_entry entry = Inr (label, val)"
    by (simp add: e label_def val_def)
  from assms have pl: "prints label" and pv: "prints val"
    by (simp_all add: e label_def val_def)
  show ?thesis
  proof (cases "truthy label \<and> truthy val")
    case False
    then show ?thesis
      using d by (auto simp: surviving_def)
  next
    case True
    from pv obtain w where w: "val_of val = Inr w" "to_string w = Inr (value_text val)"
      by (rule val_of_text)
    from True d w to_string_prints [OF pl] show ?thesis
      by (simp add: surviving_def list_line_def)
  qed
qed

lemma formatAnswers_loop_lines:
  "\<forall>e \<in> set entries. answer_pair e \<Longrightarrow>
   formatAnswers_loop entries acc =
     Inr (acc @ concat (map list_line (filter surviving entries)))"
proof (induction entries arbitrary: acc)
  case Nil
  show ?case by simp
next
  case (Cons e es)
  from Cons.prems have first: "answer_pair e" and rest: "\<forall>e \<in> set es. answer_pair e"
    by simp_all
  show ?case
    unfolding formatAnswers_loop_step [OF first] Cons.IH [OF rest] by simp
qed






section \<open>Properties of the Notification Gateway\<close>

text \<open>
  C3. When the service is not ready, sendEmail returns, for every recipient, type and
  data, the failure result with \<open>success = false\<close> and the error "Email service not
  configured"; the service is unchanged, and nothing is thrown: the result is a value.
\<close>

theorem sendEmail_not_configured:
  "\<not> isReady svc \<Longrightarrow>
   sendEmail env clk svc recipient kind bag =
     (\<lparr>r_success = False, r_messageId = None, r_previewUrl = None,
       r_error = Some ''Email service not configured''\<rparr>, svc)"
  by (simp add: sendEmail_def isReady_def send_failure_def)

theorem sendEmail_not_configured_witness:
  "\<not> isReady service_unconfigured \<and>
   sendEmail no_env example_clock service_unconfigured JNull ''welcome'' JUndefined =
     (\<lparr>r_success = False, r_messageId = None, r_previewUrl = None,
       r_error = Some ''Email service not configured''\<rparr>, service_unconfigured)"
  using sendEmail_not_configured [of service_unconfigured no_env example_clock JNull
      "''welcome''" JUndefined]
  by (simp add: isReady_def service_unconfigured_def)

lemma message_replace_not_string:
  "(\<forall>s. m \<noteq> JStr s) \<Longrightarrow> \<exists>e. message_replace m = Inl e"
  by (cases m) simp_all

lemma custom_template_throws:
  assumes "\<forall>s. get_prop bag ''message'' \<noteq> Inr (JStr s)"
  shows "\<exists>e. custom_template clk bag = Inl e"
proof (cases "get_prop bag ''message''")
  case (Inl e)
  then have "bag = JUndefined \<or> bag = JNull"
    by (cases bag) simp_all
  then show ?thesis
    by (auto simp: custom_template_def)
next
  case (Inr m)
  with assms have "\<forall>s. m \<noteq> JStr s"
    by simp
  then obtain e where "message_replace m = Inl e"
    using message_replace_not_string by blast
  with Inr show ?thesis
    by (simp add: custom_template_def split: sum.splits)
qed

lemma generateEmailTemplate_throws:
  assumes "\<forall>s. get_prop bag ''message'' \<noteq> Inr (JStr s)"
  shows "\<exists>e. generateEmailTemplate clk kind bag = Inl e"
proof -
  obtain e where "custom_template clk bag = Inl e"
    using custom_template_throws [OF assms] by blast
  then show ?thesis
    by (simp add: generateEmailTemplate_def split: sum.splits)
qed

text \<open>
  C10. When the service is configured and the data has no string \<open>message\<close> (the data
  is \<open>null\<close> or \<open>undefined\<close>, has no such field, or the field is not a string), sendEmail
  returns, for the type "custom" as for every other type, a result with
  \<open>success = false\<close> and an error text, and hands no message to the transport: the
  service, with its list of dispatched messages, is unchanged.
\<close>

theorem sendEmail_message_not_string:
  "isConfigured svc \<and> (\<forall>s. get_prop bag ''message'' \<noteq> Inr (JStr s)) \<Longrightarrow>
   r_success (fst (sendEmail env clk svc recipient kind bag)) = False \<and>
   r_error (fst (sendEmail env clk svc recipient kind bag)) \<noteq> None \<and>
   snd (sendEmail env clk svc recipient kind bag) = svc"
proof -
  assume a: "isConfigured svc \<and> (\<forall>s. get_prop bag ''message'' \<noteq> Inr (JStr s))"
  then obtain e where "generateEmailTemplate clk kind bag = Inl e"
    using generateEmailTemplate_throws by blast
  with a show ?thesis
    by (simp add: sendEmail_def send_failure_def)
qed

theorem sendEmail_message_not_string_witness:
  "isConfigured service_delivering \<and>
   get_prop (JObj [(''subject'', JStr ''Hello'')]) ''message'' = Inr JUndefined \<and>
   r_success (fst (sendEmail no_env example_clock service_delivering (JStr ''a@example.com'')
                ''custom'' (JObj [(''subject'', JStr ''Hello'')]))) = False \<and>
   r_error (fst (sendEmail no_env example_clock service_delivering (JStr ''a@example.com'')
              ''custom'' (JObj [(''subject'', JStr ''Hello'')]))) \<noteq> None \<and>
   dispatched (snd (sendEmail no_env example_clock service_delivering (JStr ''a@example.com'')
                ''custom'' (JObj [(''subject'', JStr ''Hello'')]))) = []"
  using sendEmail_message_not_string [of service_delivering "JObj [(''subject'', JStr ''Hello'')]"
      no_env example_clock "JStr ''a@example.com''" "''custom''"]
  by (simp add: service_delivering_def)

text \<open>
  What holds of the custom template: when the three templates can be built and the
  message is a string, then for the type "custom", and for a type that is neither a key
  of the table nor a member of \<open>Object.prototype\<close>, the HTML body has each newline of
  the message turned into a line break, and the text body has the message as it is.
\<close>

lemma custom_template_bodies:
  assumes "welcome_template clk bag = Inr w" and "notification_template clk bag = Inr n"
    and "get_prop bag ''message'' = Inr (JStr s)"
    and "kind = ''custom'' \<or>
         kind \<notin> set ([''welcome'', ''notification''] @ object_prototype_members)"
  shows "\<exists>t. generateEmailTemplate clk kind bag = Inr t \<and>
             t_html t = JStr (custom_html (newlines_to_br s) (toLocaleString clk)) \<and>
             t_text t = JStr (custom_text s (toLocaleString clk))"
proof -
  from assms(3) have "\<exists>subject. get_prop bag ''subject'' = Inr subject"
    by (cases bag) simp_all
  then obtain subject where "get_prop bag ''subject'' = Inr subject"
    by blast
  with assms(3) have "custom_template clk bag =
      Inr \<lparr>t_subject = js_or subject (JStr ''Message from Our Service''),
           t_html = JStr (custom_html (newlines_to_br s) (toLocaleString clk)),
           t_text = JStr (custom_text s (toLocaleString clk))\<rparr>"
    by (simp add: custom_template_def to_string_def)
  with assms(1,2,4) show ?thesis
    by (auto simp: generateEmailTemplate_def)
qed

text \<open>
  C8. The type "toString" is outside the enumeration welcome, notification, custom,
  and the lookup in the table of templates finds the method every object inherits: the
  template returned has no subject, no HTML body and no text body, and the message
  text, here two lines, is in neither. sendEmail hands the transport a message with
  no body and reports success.
\<close>

theorem generateEmailTemplate_inherited_member:
  "generateEmailTemplate example_clock ''toString'' (JObj [(''message'', JStr ''a\<newline>b'')]) =
     Inr \<lparr>t_subject = JUndefined, t_html = JUndefined, t_text = JUndefined\<rparr>
   \<and> sendEmail no_env example_clock service_delivering (JStr ''a@example.com'') ''toString''
       (JObj [(''message'', JStr ''a\<newline>b'')]) =
     (\<lparr>r_success = True, r_messageId = Some ''<1@example.com>'', r_previewUrl = None,
       r_error = None\<rparr>,
      service_delivering\<lparr>dispatched :=
        [\<lparr>m_from = mail_from no_env, m_to = JStr ''a@example.com'', m_subject = JUndefined,
          m_text = JUndefined, m_html = JUndefined\<rparr>]\<rparr>)"
proof -
  have t: "generateEmailTemplate example_clock ''toString''
             (JObj [(''message'', JStr ''a\<newline>b'')]) =
     Inr \<lparr>t_subject = JUndefined, t_html = JUndefined, t_text = JUndefined\<rparr>"
    by (simp add: generateEmailTemplate_def welcome_template_def notification_template_def
        custom_template_def printed_def to_string_def js_or_def object_prototype_members_def
        inherited_member_def)
  show ?thesis
    unfolding sendEmail_def t
    by (simp add: service_delivering_def preview_url_def no_env_def Let_def)
qed

section \<open>Properties of the ObjectId\<close>

lemma hex_value_hex_char: "d < 16 \<Longrightarrow> hex_value (hex_char d) = Some d"
proof -
  assume "d < 16"
  then have "d = 0 \<or> d = 1 \<or> d = 2 \<or> d = 3 \<or> d = 4 \<or> d = 5 \<or> d = 6 \<or> d = 7 \<or>
             d = 8 \<or> d = 9 \<or> d = 10 \<or> d = 11 \<or> d = 12 \<or> d = 13 \<or> d = 14 \<or> d = 15"
    by arith
  then show ?thesis
    by (elim disjE) (simp_all add: hex_char_def hex_value_def)
qed

lemma length_to_hex: "length (to_hex w n) = w"
  by (induction w arbitrary: n) simp_all

lemma parse_hex_append:
  "parse_hex (xs @ ys) acc = (case parse_hex xs acc of None \<Rightarrow> None | Some a \<Rightarrow> parse_hex ys a)"
  by (induction xs arbitrary: acc) (simp_all split: option.splits)

lemma parse_hex_to_hex: "parse_hex (to_hex w n) acc = Some (acc * 16 ^ w + n mod 16 ^ w)"
proof (induction w arbitrary: n acc)
  case 0
  show ?case by simp
next
  case (Suc w)
  have "parse_hex (to_hex (Suc w) n) acc =
        Some ((acc * 16 ^ w + (n div 16) mod 16 ^ w) * 16 + n mod 16)"
    by (simp add: parse_hex_append Suc.IH hex_value_hex_char)
  also have "(acc * 16 ^ w + (n div 16) mod 16 ^ w) * 16 + n mod 16 =
             acc * 16 ^ Suc w + (16 * ((n div 16) mod 16 ^ w) + n mod 16)"
    by (simp add: algebra_simps)
  also have "16 * ((n div 16) mod 16 ^ w) + n mod 16 = n mod 16 ^ Suc w"
    by (simp add: mod_mult2_eq)
  finally show ?case .
qed

lemma ObjectId_roundtrip: "oid < objectid_bound \<Longrightarrow> ObjectId_new (toHexString oid) = Inr oid"
proof -
  assume "oid < objectid_bound"
  then have b: "oid < 2 ^ 96" by (simp only: objectid_bound_def)
  have "(16::nat) ^ 24 = 2 ^ 96" by simp
  with b have m: "oid mod 16 ^ 24 = oid" by simp
  have "parse_hex (to_hex 24 oid) 0 = Some oid"
    unfolding parse_hex_to_hex using m by simp
  then show ?thesis
    unfolding ObjectId_new_def toHexString_def length_to_hex by simp
qed

lemma toHexString_inj:
  assumes "a < objectid_bound" and "b < objectid_bound" and eq: "toHexString a = toHexString b"
  shows "a = b"
proof -
  have "ObjectId_new (toHexString a) = Inr a"
    using assms(1) by (rule ObjectId_roundtrip)
  moreover have "ObjectId_new (toHexString b) = Inr b"
    using assms(2) by (rule ObjectId_roundtrip)
  ultimately have "Inr a = (Inr b :: js_error + nat)"
    unfolding eq by (rule trans [OF sym])
  then show ?thesis by (rule Inr_inject)
qed

section \<open>Properties of the store\<close>

lemma getCollection_bound: "collection svc = Some c \<Longrightarrow> getCollection svc = Inr c"
  by (simp add: getCollection_def)

lemma map_of_set_field: "map_of (set_field k v doc) k' = (if k' = k then Some v else map_of doc k')"
  by (simp add: set_field_def update_conv')

lemma insertOne_generated:
  assumes "reachable c" and "ids_below_counter c" and "given_id (map_of doc ''_id'') = None"
  shows "insertOne c doc =
           Inr (BObjectId (pk_counter c),
                c\<lparr>docs := docs c @ [set_field ''_id'' (BObjectId (pk_counter c)) doc],
                  pk_counter := pk_counter c + 1\<rparr>)"
proof -
  have "\<not> (\<exists>d \<in> set (docs c). map_of d ''_id'' = Some (BObjectId (pk_counter c)))"
    using assms(2) by (auto simp: ids_below_counter_def has_id_def)
  with assms(1,3) show ?thesis
    by (simp add: insertOne_def)
qed

lemma find_appended:
  "\<forall>d \<in> set ds. \<not> P d \<Longrightarrow> P x \<Longrightarrow> find P (ds @ [x]) = Some x"
  by (induction ds) simp_all


lemma stored_with_collection: "stored (with_collection app c) = docs c"
  by (simp add: stored_def with_collection_def)

lemma update_first_target:
  "\<forall>x \<in> set pre. \<not> has_id oid x \<Longrightarrow> has_id oid d \<Longrightarrow>
   update_first oid u (pre @ d # post) = (1, pre @ set_fields u d # post)"
  by (induction pre) simp_all


lemma update_first_frame:
  "list_all2 (\<lambda>d d'. d' = d \<or> (has_id oid d \<and> d' = set_fields u d))
     ds (snd (update_first oid u ds))"
proof (induction ds)
  case Nil
  show ?case by simp
next
  case (Cons d ds)
  show ?case
  proof (cases "has_id oid d")
    case True
    then show ?thesis by (simp add: list_all2_refl)
  next
    case False
    with Cons.IH show ?thesis by (cases "update_first oid u ds") simp
  qed
qed

section \<open>Properties of the handlers\<close>

lemma get_api_data_envelope: "envelope_ok (json (fst (get_api_data app)))"
  by (simp add: get_api_data_def failure_def envelope_ok_def split: sum.splits)

lemma get_api_data_id_envelope: "envelope_ok (json (fst (get_api_data_id ident app)))"
  by (simp add: get_api_data_id_def failure_def envelope_ok_def split: sum.splits option.splits)

lemma post_api_data_envelope:
  "envelope_ok (json (fst (post_api_data env clk body app))) \<and>
   change_acknowledged (json (fst (post_api_data env clk body app)))"
  by (simp add: post_api_data_def failure_def envelope_ok_def change_acknowledged_def Let_def
      split: sum.splits prod.splits)

lemma put_api_data_id_envelope:
  "envelope_ok (json (fst (put_api_data_id ident body app))) \<and>
   change_acknowledged (json (fst (put_api_data_id ident body app)))"
  by (simp add: put_api_data_id_def failure_def envelope_ok_def change_acknowledged_def
      split: sum.splits prod.splits)

lemma delete_api_data_id_envelope:
  "envelope_ok (json (fst (delete_api_data_id ident app))) \<and>
   change_acknowledged (json (fst (delete_api_data_id ident app)))"
  by (simp add: delete_api_data_id_def failure_def envelope_ok_def change_acknowledged_def
      split: sum.splits prod.splits)

lemma post_api_seed_envelope: "envelope_ok (json (fst (post_api_seed clk app)))"
  by (simp add: post_api_seed_def failure_def envelope_ok_def split: sum.splits prod.splits)

lemma example_id_1: "ObjectId_new ''000000000000000000000001'' = Inr 1"
  by (simp add: ObjectId_new_def hex_value_def)


lemma example_id_malformed:
  "ObjectId_new ''42'' =
     Inl (BSONError ''input must be a 24 character hex string, 12 byte Uint8Array, or an integer'')"
  by (simp add: ObjectId_new_def)


text \<open>
  C7. The envelope of every response of the six handlers (list, get by id, create,
  update, delete, seed), for every request and every state of the services: when
  \<open>success\<close> is false there is no payload and there is a message; and the successful
  responses of create, update and delete carry a message.
\<close>

theorem handlers_envelopes:
  "envelope_ok (json (fst (get_api_data app)))
   \<and> envelope_ok (json (fst (get_api_data_id ident app)))
   \<and> envelope_ok (json (fst (post_api_data env clk body app)))
   \<and> envelope_ok (json (fst (put_api_data_id ident body app)))
   \<and> envelope_ok (json (fst (delete_api_data_id ident app)))
   \<and> envelope_ok (json (fst (post_api_seed clk app)))
   \<and> change_acknowledged (json (fst (post_api_data env clk body app)))
   \<and> change_acknowledged (json (fst (put_api_data_id ident body app)))
   \<and> change_acknowledged (json (fst (delete_api_data_id ident app)))"
  by (simp add: get_api_data_envelope get_api_data_id_envelope post_api_data_envelope
      put_api_data_id_envelope delete_api_data_id_envelope post_api_seed_envelope)

theorem handlers_envelopes_witness:
  "\<not> success (json (fst (get_api_data_id ''42'' example_app)))
   \<and> data (json (fst (get_api_data_id ''42'' example_app))) = None
   \<and> message (json (fst (get_api_data_id ''42'' example_app))) = Some ''Failed to fetch data''
   \<and> success (json (fst (put_api_data_id ''000000000000000000000001'' [] example_app)))
   \<and> message (json (fst (put_api_data_id ''000000000000000000000001'' [] example_app))) =
       Some ''Data updated successfully''"
  using handlers_envelopes [of example_app "''42''" no_env example_clock "[]"]
    handlers_envelopes [of example_app "''000000000000000000000001''" no_env example_clock "[]"]
    example_id_malformed example_id_1
  by (simp add: envelope_ok_def change_acknowledged_def get_api_data_id_def put_api_data_id_def
      getCollection_def example_app_def example_collection_def failure_def updateOne_def
      updateData_of_def body_field_def has_id_def stored_record_def)

subsection \<open>Create, then get by id\<close>

lemma formatAnswers_no_answers: "formatAnswers (js_or JUndefined (JArr [])) = Inr (greeting @ sign_off)"
  by (simp add: js_or_def formatAnswers_def)

lemma formatAnswers_of_pairs:
  "\<forall>e \<in> set entries. answer_pair e \<Longrightarrow>
   \<exists>t. formatAnswers (js_or (JArr entries) (JArr [])) = Inr t"
  by (simp add: js_or_def formatAnswers_def formatAnswers_loop_lines)

lemma post_api_data_inserted:
  assumes "getCollection (mongoService app) = Inr c"
    and "insertOne c (new_document clk body) = Inr (insertedId, c')"
    and "formatAnswers (js_or (body_field body ''answers'') (JArr [])) = Inr formatted"
    and "id_toString clk insertedId = Inr ident"
  shows "fst (post_api_data env clk body (app\<lparr>emailService := svc\<rparr>)) = created ident \<and>
         mongoService (snd (post_api_data env clk body (app\<lparr>emailService := svc\<rparr>))) =
           (mongoService app)\<lparr>collection := Some c'\<rparr>"
  using assms
  by (simp add: post_api_data_def created_def with_collection_def Let_def)

lemma new_document_record_input:
  "new_document clk (record_input name email age) =
     [(''name'', BVal (JStr name)), (''email'', BVal (JStr email)), (''age'', BVal (JNum age)),
      (''createdAt'', BDate (now clk))]"
  by (simp add: new_document_def record_input_def set_field_def)

lemma insertOne_record_input:
  assumes "reachable c" and "ids_below_counter c"
  shows "insertOne c (new_document clk (record_input name email age)) =
           Inr (BObjectId (pk_counter c),
                c\<lparr>docs := docs c @ [stored_record clk name email age (pk_counter c)],
                  pk_counter := pk_counter c + 1\<rparr>)"
proof -
  have "given_id (map_of (new_document clk (record_input name email age)) ''_id'') = None"
    by (simp add: new_document_record_input)
  from insertOne_generated [OF assms this] show ?thesis
    by (simp add: new_document_record_input stored_record_def set_field_def)
qed

lemma ids_below_counter_insert:
  assumes "ids_below_counter c"
  shows "ids_below_counter
           (c\<lparr>docs := docs c @ [stored_record clk name email age (pk_counter c)],
              pk_counter := pk_counter c + 1\<rparr>)"
  using assms
  by (auto simp: ids_below_counter_def has_id_def stored_record_def less_Suc_eq)

lemma post_api_data_record_input:
  assumes "collection (mongoService app) = Some c" and "reachable c" and "ids_below_counter c"
  shows "fst (post_api_data env clk (record_input name email age) app) =
           created (toHexString (pk_counter c)) \<and>
         mongoService (snd (post_api_data env clk (record_input name email age) app)) =
           (mongoService app)\<lparr>collection :=
              Some (c\<lparr>docs := docs c @ [stored_record clk name email age (pk_counter c)],
                      pk_counter := pk_counter c + 1\<rparr>)\<rparr>"
proof -
  have g: "getCollection (mongoService app) = Inr c"
    using assms(1) by (rule getCollection_bound)
  have f: "formatAnswers (js_or (body_field (record_input name email age) ''answers'') (JArr [])) =
      Inr (greeting @ sign_off)"
    by (simp add: body_field_def record_input_def formatAnswers_no_answers)
  have i: "id_toString clk (BObjectId (pk_counter c)) = Inr (toHexString (pk_counter c))"
    by simp
  from post_api_data_inserted [OF g insertOne_record_input [OF assms(2,3)] f i,
      where svc = "emailService app" and env = env]
  show ?thesis by simp
qed

lemma get_api_data_id_found:
  assumes "collection (mongoService app) = Some c" and "reachable c"
    and "oid < objectid_bound" and "find (has_id oid) (docs c) = Some d"
  shows "get_api_data_id (toHexString oid) app =
           (\<lparr>status = 200, json = \<lparr>success = True, data = Some (Record d), message = None\<rparr>\<rparr>, app)"
  using assms
  by (simp add: get_api_data_id_def getCollection_bound ObjectId_roundtrip findOne_def)

text \<open>
  C1. On a connected, reachable collection whose ids are below the driver's counter, for
  every valid Record input: the create handler answers 201 with the id the driver
  assigned, printed in hexadecimal; the get-by-id handler, given that id, answers 200 with
  the Record whose name, email and age are the input's, whose creation time is the
  server's clock and whose id is the assigned one; no Record had that id before; and a
  second create gets another id.
\<close>

theorem post_then_get:
  assumes "collection (mongoService app) = Some c" and "reachable c" and "ids_below_counter c"
    and "pk_counter c + 1 < objectid_bound"
  shows "fst (post_api_data env clk (record_input name email age) app) =
           created (toHexString (pk_counter c))
       \<and> fst (get_api_data_id (toHexString (pk_counter c))
                (snd (post_api_data env clk (record_input name email age) app))) =
           \<lparr>status = 200,
            json = \<lparr>success = True,
                    data = Some (Record (stored_record clk name email age (pk_counter c))),
                    message = None\<rparr>\<rparr>
       \<and> (\<forall>d \<in> set (docs c). \<not> has_id (pk_counter c) d)
       \<and> fst (post_api_data env2 clk2 (record_input name2 email2 age2)
                (snd (post_api_data env clk (record_input name email age) app))) =
           created (toHexString (pk_counter c + 1))
       \<and> toHexString (pk_counter c + 1) \<noteq> toHexString (pk_counter c)"
proof -
  let ?app1 = "snd (post_api_data env clk (record_input name email age) app)"
  let ?c1 = "c\<lparr>docs := docs c @ [stored_record clk name email age (pk_counter c)],
               pk_counter := pk_counter c + 1\<rparr>"
  note first = post_api_data_record_input [OF assms(1-3), of env clk name email age]
  have fresh: "\<forall>d \<in> set (docs c). \<not> has_id (pk_counter c) d"
    using assms(3) by (auto simp: ids_below_counter_def)
  have c1: "collection (mongoService ?app1) = Some ?c1"
    using first by simp
  have r1: "reachable ?c1"
    using assms(2) by simp
  have "has_id (pk_counter c) (stored_record clk name email age (pk_counter c))"
    by (simp add: has_id_def stored_record_def)
  with fresh have "find (has_id (pk_counter c)) (docs ?c1) =
      Some (stored_record clk name email age (pk_counter c))"
    by (simp add: find_appended)
  moreover have "pk_counter c < objectid_bound"
    using assms(4) by simp
  ultimately have second: "get_api_data_id (toHexString (pk_counter c)) ?app1 =
      (\<lparr>status = 200,
        json = \<lparr>success = True,
                data = Some (Record (stored_record clk name email age (pk_counter c))),
                message = None\<rparr>\<rparr>, ?app1)"
    using get_api_data_id_found [OF c1 r1] by simp
  have third: "fst (post_api_data env2 clk2 (record_input name2 email2 age2) ?app1) =
      created (toHexString (pk_counter c + 1))"
    using post_api_data_record_input [OF c1 r1 ids_below_counter_insert [OF assms(3)],
        of env2 clk2 name2 email2 age2]
    by simp
  have "toHexString (pk_counter c + 1) \<noteq> toHexString (pk_counter c)"
  proof
    assume "toHexString (pk_counter c + 1) = toHexString (pk_counter c)"
    with assms(4) have "pk_counter c + 1 = pk_counter c"
      by (intro toHexString_inj) simp_all
    then show False by simp
  qed
  with first second third fresh show ?thesis by simp
qed

theorem post_then_get_witness:
  "collection (mongoService example_app) = Some example_collection
   \<and> reachable example_collection
   \<and> ids_below_counter example_collection
   \<and> pk_counter example_collection + 1 < objectid_bound
   \<and> fst (post_api_data no_env example_clock (record_input ''Eve'' ''eve@example.com'' 29)
            example_app) = created (toHexString 2)
   \<and> fst (get_api_data_id (toHexString 2)
            (snd (post_api_data no_env example_clock (record_input ''Eve'' ''eve@example.com'' 29)
                    example_app))) =
       \<lparr>status = 200,
        json = \<lparr>success = True,
                data = Some (Record (stored_record example_clock ''Eve'' ''eve@example.com'' 29 2)),
                message = None\<rparr>\<rparr>"
proof -
  have h1: "collection (mongoService example_app) = Some example_collection"
    by (simp add: example_app_def)
  have h2: "reachable example_collection"
    by (simp add: example_collection_def)
  have h3: "ids_below_counter example_collection"
    by (auto simp: ids_below_counter_def example_collection_def has_id_def stored_record_def)
  have h4: "pk_counter example_collection + 1 < objectid_bound"
    by (simp add: example_collection_def objectid_bound_def)
  have k: "pk_counter example_collection = 2"
    by (simp add: example_collection_def)
  from post_then_get [OF h1 h2 h3 h4, of no_env example_clock "''Eve''" "''eve@example.com''" 29]
    h1 h2 h3 h4 show ?thesis
    unfolding k by simp
qed

text \<open>
  C2, as stated, fails: the body below has an object as \<open>answers\<close>. The insertion
  succeeds and the Record is in the store, then formatAnswers throws on the value that
  is not iterable, and the handler answers 500 "Failed to create data".
\<close>

theorem post_api_data_unformattable_answers:
  "getCollection (mongoService example_app) = Inr example_collection
   \<and> insertOne example_collection (new_document example_clock answers_object_body) =
       Inr (BObjectId 2,
            example_collection\<lparr>docs := docs example_collection @
                 [set_field ''_id'' (BObjectId 2) (new_document example_clock answers_object_body)],
               pk_counter := 3\<rparr>)
   \<and> fst (post_api_data no_env example_clock answers_object_body example_app) =
       failure 500 ''Failed to create data''
   \<and> stored (snd (post_api_data no_env example_clock answers_object_body example_app)) =
       stored example_app @
         [set_field ''_id'' (BObjectId 2) (new_document example_clock answers_object_body)]"
proof -
  have g: "getCollection (mongoService example_app) = Inr example_collection"
    by (simp add: getCollection_def example_app_def)
  have i: "insertOne example_collection (new_document example_clock answers_object_body) =
       Inr (BObjectId 2,
            example_collection\<lparr>docs := docs example_collection @
                 [set_field ''_id'' (BObjectId 2) (new_document example_clock answers_object_body)],
               pk_counter := 3\<rparr>)"
    by (simp add: insertOne_def example_collection_def new_document_def answers_object_body_def
        record_input_def set_field_def stored_record_def)
  have f: "formatAnswers (js_or (body_field answers_object_body ''answers'') (JArr [])) =
      Inl (TypeError ''answers is not iterable'')"
    by (simp add: formatAnswers_def js_or_def body_field_def answers_object_body_def
        record_input_def)
  have r: "post_api_data no_env example_clock answers_object_body example_app =
      (failure 500 ''Failed to create data'',
       with_collection example_app
         (example_collection\<lparr>docs := docs example_collection @
                 [set_field ''_id'' (BObjectId 2) (new_document example_clock answers_object_body)],
               pk_counter := 3\<rparr>))"
    by (simp add: post_api_data_def g i f Let_def)
  show ?thesis
    by (simp add: g i r stored_with_collection) (simp add: stored_def example_app_def)
qed

text \<open>
  C2, amended. For every create request whose insertion succeeds, whose \<open>answers\<close>
  formatAnswers formats and whose inserted id has a text, the response is 201 with the
  success envelope carrying the id, whatever the mail service is: not configured, or
  configured with a transport that delivers or that rejects the message. The answers
  are formatted when there are none and when they are a list of answer pairs; an id
  that the driver generated has a text.
\<close>

theorem post_api_data_created:
  "(getCollection (mongoService app) = Inr c \<and>
    insertOne c (new_document clk body) = Inr (insertedId, c') \<and>
    formatAnswers (js_or (body_field body ''answers'') (JArr [])) = Inr formatted \<and>
    id_toString clk insertedId = Inr ident \<longrightarrow>
      fst (post_api_data env clk body (app\<lparr>emailService := svc\<rparr>)) =
        \<lparr>status = 201,
         json = \<lparr>success = True, data = Some (NewId ident),
                 message = Some ''Data created successfully''\<rparr>\<rparr>)
   \<and> (map_of body ''answers'' = None \<or>
      map_of body ''answers'' = Some (JArr entries) \<and> (\<forall>e \<in> set entries. answer_pair e) \<longrightarrow>
        (\<exists>t. formatAnswers (js_or (body_field body ''answers'') (JArr [])) = Inr t))
   \<and> id_toString clk (BObjectId oid) = Inr (toHexString oid)"
proof (intro conjI impI)
  assume "getCollection (mongoService app) = Inr c \<and>
    insertOne c (new_document clk body) = Inr (insertedId, c') \<and>
    formatAnswers (js_or (body_field body ''answers'') (JArr [])) = Inr formatted \<and>
    id_toString clk insertedId = Inr ident"
  then show "fst (post_api_data env clk body (app\<lparr>emailService := svc\<rparr>)) =
        \<lparr>status = 201,
         json = \<lparr>success = True, data = Some (NewId ident),
                 message = Some ''Data created successfully''\<rparr>\<rparr>"
    using post_api_data_inserted [of app c clk body insertedId c' formatted ident env svc]
    by (simp add: created_def)
next
  assume "map_of body ''answers'' = None \<or>
      map_of body ''answers'' = Some (JArr entries) \<and> (\<forall>e \<in> set entries. answer_pair e)"
  then show "\<exists>t. formatAnswers (js_or (body_field body ''answers'') (JArr [])) = Inr t"
    using formatAnswers_of_pairs [of entries]
    by (auto simp: body_field_def formatAnswers_no_answers)
next
  show "id_toString clk (BObjectId oid) = Inr (toHexString oid)"
    by simp
qed

theorem post_api_data_created_witness:
  "getCollection (mongoService example_app) = Inr example_collection
   \<and> insertOne example_collection
         (new_document example_clock (record_input ''Eve'' ''eve@example.com'' 29)) =
       Inr (BObjectId 2,
            example_collection\<lparr>docs := docs example_collection @
                 [stored_record example_clock ''Eve'' ''eve@example.com'' 29 2],
               pk_counter := 3\<rparr>)
   \<and> formatAnswers (js_or (body_field (record_input ''Eve'' ''eve@example.com'' 29) ''answers'')
                       (JArr [])) = Inr (greeting @ sign_off)
   \<and> id_toString example_clock (BObjectId 2) = Inr (toHexString 2)
   \<and> fst (post_api_data no_env example_clock (record_input ''Eve'' ''eve@example.com'' 29)
            (example_app\<lparr>emailService := service_rejecting\<rparr>)) =
       \<lparr>status = 201,
        json = \<lparr>success = True, data = Some (NewId (toHexString 2)),
                message = Some ''Data created successfully''\<rparr>\<rparr>
   \<and> fst (post_api_data no_env example_clock (record_input ''Eve'' ''eve@example.com'' 29)
            (example_app\<lparr>emailService := service_unconfigured\<rparr>)) =
       \<lparr>status = 201,
        json = \<lparr>success = True, data = Some (NewId (toHexString 2)),
                message = Some ''Data created successfully''\<rparr>\<rparr>
   \<and> r_success (fst (sendEmail no_env example_clock service_rejecting JUndefined ''custom''
          (JObj [(''subject'', JStr ''Data Retrieved From Simulator''),
                 (''message'', JStr (greeting @ sign_off))]))) = False"
proof -
  have g: "getCollection (mongoService example_app) = Inr example_collection"
    by (simp add: getCollection_def example_app_def)
  have i: "insertOne example_collection
         (new_document example_clock (record_input ''Eve'' ''eve@example.com'' 29)) =
       Inr (BObjectId 2,
            example_collection\<lparr>docs := docs example_collection @
                 [stored_record example_clock ''Eve'' ''eve@example.com'' 29 2],
               pk_counter := 3\<rparr>)"
    by (simp add: insertOne_def example_collection_def new_document_def record_input_def
        set_field_def stored_record_def)
  have f: "formatAnswers (js_or (body_field (record_input ''Eve'' ''eve@example.com'' 29) ''answers'')
                       (JArr [])) = Inr (greeting @ sign_off)"
    by (simp add: body_field_def record_input_def formatAnswers_no_answers)
  have t: "id_toString example_clock (BObjectId 2) = Inr (toHexString 2)"
    by simp
  have m: "r_success (fst (sendEmail no_env example_clock service_rejecting JUndefined ''custom''
          (JObj [(''subject'', JStr ''Data Retrieved From Simulator''),
                 (''message'', JStr (greeting @ sign_off))]))) = False"
    by (simp add: sendEmail_def generateEmailTemplate_def welcome_template_def
        notification_template_def custom_template_def printed_def to_string_def js_or_def
        service_rejecting_def send_failure_def Let_def)
  from post_api_data_created [of example_app example_collection example_clock
      "record_input ''Eve'' ''eve@example.com'' 29" "BObjectId 2" _ "greeting @ sign_off"
      "toHexString 2" no_env service_rejecting]
    post_api_data_created [of example_app example_collection example_clock
      "record_input ''Eve'' ''eve@example.com'' 29" "BObjectId 2" _ "greeting @ sign_off"
      "toHexString 2" no_env service_unconfigured]
    g i f t m
  show ?thesis by simp
qed

subsection \<open>Update\<close>



lemma put_api_data_id_run:
  assumes "collection (mongoService app) = Some c" and "reachable c"
    and "ObjectId_new ident = Inr oid" and "updateData_of body = Inr u"
  shows "put_api_data_id ident body app =
           (if fst (update_first oid u (docs c)) = 0
            then failure 404 ''Data not found'' else updated,
            with_collection app (c\<lparr>docs := snd (update_first oid u (docs c))\<rparr>))"
  using assms
  by (simp add: put_api_data_id_def getCollection_bound updateOne_def updated_def
      split: prod.splits)

lemma put_api_data_id_stored:
  "stored (snd (put_api_data_id ident body app)) = stored app \<or>
   (\<exists>oid u. ObjectId_new ident = Inr oid \<and> updateData_of body = Inr u \<and>
      stored (snd (put_api_data_id ident body app)) = snd (update_first oid u (stored app)))"
  by (auto simp: put_api_data_id_def getCollection_def updateOne_def stored_def
      with_collection_def split: sum.splits option.splits prod.splits if_splits)

lemma name_only_update:
  "updateData_of [(''name'', JStr x)] = Inr (if x \<noteq> [] then [(''name'', BVal (JStr x))] else [])"
  by (simp add: updateData_of_def body_field_def)




lemma name_only_set_fields:
  "set_fields (if x \<noteq> [] then [(''name'', BVal (JStr x))] else []) d =
     (if x \<noteq> [] then set_field ''name'' (BVal (JStr x)) d else d)"
  by simp

text \<open>
  C6. An update whose body is only a name leaves, in every Record of the store, every
  field but the name as it was, and changes no Record but one with the id of the
  request. When the Record with that id exists (on a reachable collection), the answer
  is the success envelope, the other Records are the same, and the name of the Record
  is the new one (an empty name is ignored).
\<close>

theorem put_name_only:
  "list_all2 (\<lambda>d d'. (\<forall>k. k \<noteq> ''name'' \<longrightarrow> map_of d' k = map_of d k) \<and>
                      (d' \<noteq> d \<longrightarrow> (\<exists>oid. ObjectId_new ident = Inr oid \<and> has_id oid d)))
     (stored app) (stored (snd (put_api_data_id ident [(''name'', JStr x)] app)))
   \<and> (collection (mongoService app) = Some c \<and> reachable c \<and> ObjectId_new ident = Inr oid \<and>
      docs c = pre @ d # post \<and> (\<forall>y \<in> set pre. \<not> has_id oid y) \<and> has_id oid d \<longrightarrow>
        fst (put_api_data_id ident [(''name'', JStr x)] app) = updated \<and>
        stored (snd (put_api_data_id ident [(''name'', JStr x)] app)) =
          pre @ (if x \<noteq> [] then set_field ''name'' (BVal (JStr x)) d else d) # post \<and>
        map_of (if x \<noteq> [] then set_field ''name'' (BVal (JStr x)) d else d) ''name'' =
          (if x \<noteq> [] then Some (BVal (JStr x)) else map_of d ''name''))"
proof (intro conjI impI)
  let ?u = "if x \<noteq> [] then [(''name'', BVal (JStr x))] else []"
  let ?P = "\<lambda>d d'. (\<forall>k. k \<noteq> ''name'' \<longrightarrow> map_of d' k = map_of d k) \<and>
                    (d' \<noteq> d \<longrightarrow> (\<exists>oid. ObjectId_new ident = Inr oid \<and> has_id oid d))"
  from put_api_data_id_stored [of ident "[(''name'', JStr x)]" app]
  show "list_all2 ?P (stored app) (stored (snd (put_api_data_id ident [(''name'', JStr x)] app)))"
  proof
    assume "stored (snd (put_api_data_id ident [(''name'', JStr x)] app)) = stored app"
    then show ?thesis by (simp add: list_all2_refl)
  next
    assume "\<exists>oid u. ObjectId_new ident = Inr oid \<and> updateData_of [(''name'', JStr x)] = Inr u \<and>
      stored (snd (put_api_data_id ident [(''name'', JStr x)] app)) =
        snd (update_first oid u (stored app))"
    then obtain oid where o: "ObjectId_new ident = Inr oid"
      and s: "stored (snd (put_api_data_id ident [(''name'', JStr x)] app)) =
                snd (update_first oid ?u (stored app))"
      by (auto simp: name_only_update)
    have "list_all2 (\<lambda>d d'. d' = d \<or> (has_id oid d \<and> d' = set_fields ?u d))
            (stored app) (snd (update_first oid ?u (stored app)))"
      by (rule update_first_frame)
    then have "list_all2 ?P (stored app) (snd (update_first oid ?u (stored app)))"
    proof (rule list_all2_mono)
      fix d d'
      assume "d' = d \<or> (has_id oid d \<and> d' = set_fields ?u d)"
      then show "?P d d'"
        using o by (auto simp: map_of_set_field)
    qed
    with s show ?thesis by simp
  qed
next
  assume a: "collection (mongoService app) = Some c \<and> reachable c \<and>
    ObjectId_new ident = Inr oid \<and> docs c = pre @ d # post \<and>
    (\<forall>y \<in> set pre. \<not> has_id oid y) \<and> has_id oid d"
  let ?u = "if x \<noteq> [] then [(''name'', BVal (JStr x))] else []"
  let ?d = "if x \<noteq> [] then set_field ''name'' (BVal (JStr x)) d else d"
  from a have "update_first oid ?u (docs c) = (1, pre @ set_fields ?u d # post)"
    by (simp add: update_first_target)
  then have "update_first oid ?u (docs c) = (1, pre @ ?d # post)"
    by (simp only: name_only_set_fields)
  with a have run: "put_api_data_id ident [(''name'', JStr x)] app =
      (updated, with_collection app (c\<lparr>docs := pre @ ?d # post\<rparr>))"
    using put_api_data_id_run [of app c ident oid "[(''name'', JStr x)]" ?u]
    by (simp add: name_only_update)
  show "fst (put_api_data_id ident [(''name'', JStr x)] app) = updated"
    by (simp add: run)
  show "stored (snd (put_api_data_id ident [(''name'', JStr x)] app)) = pre @ ?d # post"
    by (simp add: run stored_with_collection)
  show "map_of ?d ''name'' = (if x \<noteq> [] then Some (BVal (JStr x)) else map_of d ''name'')"
    by (simp add: map_of_set_field)
qed

theorem put_name_only_witness:
  "collection (mongoService example_app) = Some example_collection \<and>
   reachable example_collection \<and>
   ObjectId_new ''000000000000000000000001'' = Inr 1 \<and>
   docs example_collection =
     [stored_record example_clock ''Ada'' ''ada@example.com'' 36 0] @
     stored_record example_clock ''Bob'' ''bob@example.com'' 41 1 # [] \<and>
   \<not> has_id 1 (stored_record example_clock ''Ada'' ''ada@example.com'' 36 0) \<and>
   has_id 1 (stored_record example_clock ''Bob'' ''bob@example.com'' 41 1) \<and>
   fst (put_api_data_id ''000000000000000000000001'' [(''name'', JStr ''Robert'')] example_app) =
     updated \<and>
   stored (snd (put_api_data_id ''000000000000000000000001'' [(''name'', JStr ''Robert'')]
                  example_app)) =
     [stored_record example_clock ''Ada'' ''ada@example.com'' 36 0,
      stored_record example_clock ''Robert'' ''bob@example.com'' 41 1]"
  using put_name_only [of "''000000000000000000000001''" example_app "''Robert''"
      example_collection 1 "[stored_record example_clock ''Ada'' ''ada@example.com'' 36 0]"
      "stored_record example_clock ''Bob'' ''bob@example.com'' 41 1" "[]"]
    example_id_1
  by (simp add: example_app_def example_collection_def has_id_def stored_record_def
      set_field_def)

end
